theory Spec2Isabelle
  imports Complex_Main "HOL-Library.AList"
begin

section \<open>The values of the language\<close>

text \<open>
  The program is a single JavaScript module, \<^verbatim>\<open>main.js\<close>. Its numbers are
  IEEE doubles. A finite number is modelled by an exact rational, so rounding, overflow
  to an infinity and the sign of zero are outside the model; NaN and the two infinities
  are values of the model, since the program's sums, comparisons and its one division
  can produce and meet them.
\<close>

datatype jsnum = NaN | NInf | Fin rat | PInf

text \<open>
  The values a parsed table cell or an object property can hold. A \<open>Date\<close> carries its
  time value and the text its \<^verbatim>\<open>toString\<close> prints.
\<close>

datatype jsval =
    Undefined
  | Null
  | Bool bool
  | Num jsnum
  | Str string
  | Date jsnum string

text \<open>
  What can end the run: a \<^verbatim>\<open>TypeError\<close> of the language, a rejected fetch promise, the
  \<^verbatim>\<open>Error("duplicate key")\<close> of d3's \<^verbatim>\<open>index\<close>, and a rejected \<^verbatim>\<open>client.send\<close>.
\<close>

datatype error = TypeError | FetchError | DuplicateKey | SendError

subsection \<open>Arithmetic and comparison of numbers\<close>

text \<open>\<^verbatim>\<open>a + b\<close> on numbers.\<close>

fun num_add :: "jsnum \<Rightarrow> jsnum \<Rightarrow> jsnum" where
  "num_add NaN b = NaN"
| "num_add a NaN = NaN"
| "num_add PInf NInf = NaN"
| "num_add NInf PInf = NaN"
| "num_add PInf b = PInf"
| "num_add a PInf = PInf"
| "num_add NInf b = NInf"
| "num_add a NInf = NInf"
| "num_add (Fin a) (Fin b) = Fin (a + b)"

text \<open>\<^verbatim>\<open>a < b\<close> on numbers: false as soon as one side is NaN.\<close>

fun num_lt :: "jsnum \<Rightarrow> jsnum \<Rightarrow> bool" where
  "num_lt NaN b = False"
| "num_lt a NaN = False"
| "num_lt a NInf = False"
| "num_lt NInf b = True"
| "num_lt PInf b = False"
| "num_lt a PInf = True"
| "num_lt (Fin a) (Fin b) = (a < b)"

text \<open>\<^verbatim>\<open>a > b\<close> is \<^verbatim>\<open>b < a\<close>.\<close>

definition num_gt :: "jsnum \<Rightarrow> jsnum \<Rightarrow> bool" where
  "num_gt a b = num_lt b a"

text \<open>
  \<^verbatim>\<open>a / b\<close> on numbers. A zero divisor is the positive zero: the program divides by a
  sum or by a parsed cell that won a \<open>>\<close> comparison, and neither is the negative zero.
\<close>

fun num_div :: "jsnum \<Rightarrow> jsnum \<Rightarrow> jsnum" where
  "num_div NaN b = NaN"
| "num_div a NaN = NaN"
| "num_div (Fin a) (Fin b) =
     (if b = 0 then (if a = 0 then NaN else if 0 < a then PInf else NInf)
      else Fin (a / b))"
| "num_div (Fin a) b = Fin 0"
| "num_div PInf (Fin b) = (if 0 \<le> b then PInf else NInf)"
| "num_div NInf (Fin b) = (if 0 \<le> b then NInf else PInf)"
| "num_div a b = NaN"

text \<open>The numbers that count as true in a condition: all but NaN and zero.\<close>

definition truthy :: "jsnum \<Rightarrow> bool" where
  "truthy n = (n \<noteq> NaN \<and> n \<noteq> Fin 0)"

subsection \<open>Strings\<close>

text \<open>
  Strings are lists of 8-bit characters, read as ASCII text. The white space that
  \<^verbatim>\<open>trim\<close> and the conversion to a number strip is the ASCII white space (space, tab,
  line feed, vertical tab, form feed, carriage return); the no-break space and the other
  Unicode spaces are outside the character type.
\<close>

definition is_space :: "char \<Rightarrow> bool" where
  "is_space c = (c \<in> set [CHR '' '', CHR 0x09, CHR 0x0A, CHR 0x0B, CHR 0x0C, CHR 0x0D])"

text \<open>\<^verbatim>\<open>s.trim()\<close>\<close>

definition trim :: "string \<Rightarrow> string" where
  "trim s = rev (dropWhile is_space (rev (dropWhile is_space s)))"

text \<open>\<^verbatim>\<open>s.split(sep)\<close> for a separator of one character: never the empty array.\<close>

fun split :: "char \<Rightarrow> string \<Rightarrow> string list" where
  "split sep [] = [[]]"
| "split sep (c # cs) =
     (if c = sep then [] # split sep cs
      else (case split sep cs of
              [] \<Rightarrow> [[c]]
            | p # ps \<Rightarrow> (c # p) # ps))"

text \<open>\<^verbatim>\<open>s.includes(t)\<close>: \<open>t\<close> starts at some position of \<open>s\<close>.\<close>

fun str_includes :: "string \<Rightarrow> string \<Rightarrow> bool" where
  "str_includes [] t = (t = [])"
| "str_includes (c # cs) t = (take (length t) (c # cs) = t \<or> str_includes cs t)"

text \<open>\<^verbatim>\<open>s.slice(-3)\<close>: the last three characters, or all of a shorter string.\<close>

definition slice_last3 :: "string \<Rightarrow> string" where
  "slice_last3 s = drop (length s - 3) s"

text \<open>\<^verbatim>\<open>s.slice(0, -3)\<close>: all but the last three characters.\<close>

definition slice_but_last3 :: "string \<Rightarrow> string" where
  "slice_but_last3 s = take (length s - 3) s"

subsection \<open>From strings to numbers\<close>

definition digit_of :: "char \<Rightarrow> nat option" where
  "digit_of c = map_of (zip ''0123456789abcdef'' [0, 1, 2, 3, 4, 5, 6, 7, 8, 9, 10, 11, 12, 13, 14, 15]) c"

definition upper_digit_of :: "char \<Rightarrow> nat option" where
  "upper_digit_of c = map_of (zip ''ABCDEF'' [10, 11, 12, 13, 14, 15]) c"

text \<open>The value of a character as a digit in a base, when it is one.\<close>

definition digit_in :: "nat \<Rightarrow> char \<Rightarrow> nat option" where
  "digit_in base c =
     (case (case digit_of c of Some d \<Rightarrow> Some d | None \<Rightarrow> upper_digit_of c) of
        Some d \<Rightarrow> (if d < base then Some d else None)
      | None \<Rightarrow> None)"

definition is_digit :: "char \<Rightarrow> bool" where
  "is_digit c = (digit_in 10 c \<noteq> None)"

text \<open>The number a non-empty string of digits of the base writes.\<close>

fun digits_value :: "nat \<Rightarrow> nat \<Rightarrow> string \<Rightarrow> nat option" where
  "digits_value base acc [] = Some acc"
| "digits_value base acc (c # cs) =
     (case digit_in base c of
        None \<Rightarrow> None
      | Some d \<Rightarrow> digits_value base (acc * base + d) cs)"

definition number_in :: "nat \<Rightarrow> string \<Rightarrow> nat option" where
  "number_in base s = (if s = [] then None else digits_value base 0 s)"

text \<open>\<^verbatim>\<open>0x\<close>, \<^verbatim>\<open>0o\<close> and \<^verbatim>\<open>0b\<close> literals; they take no sign.\<close>

definition non_decimal_literal :: "string \<Rightarrow> nat option" where
  "non_decimal_literal s =
     (case s of
        a # b # ds \<Rightarrow>
          (if a \<noteq> CHR ''0'' then None
           else if b = CHR ''x'' \<or> b = CHR ''X'' then number_in 16 ds
           else if b = CHR ''o'' \<or> b = CHR ''O'' then number_in 8 ds
           else if b = CHR ''b'' \<or> b = CHR ''B'' then number_in 2 ds
           else None)
      | _ \<Rightarrow> None)"

text \<open>The exponent part of a decimal literal: nothing, or \<^verbatim>\<open>e\<close> and a signed integer.\<close>

definition exponent_part :: "string \<Rightarrow> int option" where
  "exponent_part s =
     (case s of
        [] \<Rightarrow> Some 0
      | e # r \<Rightarrow>
          (if e \<noteq> CHR ''e'' \<and> e \<noteq> CHR ''E'' then None
           else (case r of
                   [] \<Rightarrow> None
                 | sg # ds \<Rightarrow>
                     (if sg = CHR ''-'' then map_option (\<lambda>n. - int n) (number_in 10 ds)
                      else if sg = CHR ''+'' then map_option int (number_in 10 ds)
                      else map_option int (number_in 10 r)))))"

text \<open>Ten to an integer power, as a rational.\<close>

definition pow10 :: "int \<Rightarrow> rat" where
  "pow10 k = (if 0 \<le> k then 10 ^ nat k else 1 / 10 ^ nat (- k))"

text \<open>
  An unsigned decimal literal: \<^verbatim>\<open>Infinity\<close>, or digits with an optional fraction and an
  optional exponent, where a digit stands before or after the point.
\<close>

definition unsigned_decimal :: "string \<Rightarrow> jsnum option" where
  "unsigned_decimal s =
     (if s = ''Infinity'' then Some PInf
      else
        let ip = takeWhile is_digit s;
            r1 = dropWhile is_digit s;
            fp = (case r1 of c # t \<Rightarrow> (if c = CHR ''.'' then takeWhile is_digit t else []) | [] \<Rightarrow> []);
            r2 = (case r1 of c # t \<Rightarrow> (if c = CHR ''.'' then dropWhile is_digit t else r1) | [] \<Rightarrow> [])
        in if ip = [] \<and> fp = [] then None
           else (case (number_in 10 (ip @ fp), exponent_part r2) of
                   (Some m, Some x) \<Rightarrow> Some (Fin (of_nat m * pow10 (x - int (length fp))))
                 | _ \<Rightarrow> None))"

definition negate :: "jsnum \<Rightarrow> jsnum" where
  "negate n = (case n of NaN \<Rightarrow> NaN | NInf \<Rightarrow> PInf | PInf \<Rightarrow> NInf | Fin q \<Rightarrow> Fin (- q))"

text \<open>
  The conversion of a string to a number (\<^verbatim>\<open>+s\<close>, \<^verbatim>\<open>Number(s)\<close>): white space is
  stripped, the empty string is 0, a numeric literal is its value and anything else is NaN.
\<close>

definition string_to_number :: "string \<Rightarrow> jsnum" where
  "string_to_number s =
     (let t = trim s in
      if t = [] then Fin 0
      else (case non_decimal_literal t of
              Some n \<Rightarrow> Fin (of_nat n)
            | None \<Rightarrow>
                (case (case t of
                         c # r \<Rightarrow>
                           (if c = CHR ''+'' then unsigned_decimal r
                            else if c = CHR ''-'' then map_option negate (unsigned_decimal r)
                            else unsigned_decimal t)
                       | [] \<Rightarrow> None) of
                   Some n \<Rightarrow> n
                 | None \<Rightarrow> NaN)))"

subsection \<open>From numbers to strings, and the \<open>+\<close> of the language\<close>

definition digit_char :: "nat \<Rightarrow> char" where
  "digit_char d = ''0123456789'' ! d"

function string_of_nat :: "nat \<Rightarrow> string" where
  "string_of_nat n =
     (if n < 10 then [digit_char n] else string_of_nat (n div 10) @ [digit_char (n mod 10)])"
  by pat_completeness auto
termination
  by (relation "measure id") auto

declare string_of_nat.simps [simp del]

text \<open>
  The text of a number. An integer below \<open>10\<^sup>2\<^sup>1\<close> in absolute value prints as its decimal
  digits, with no padding. What the runtime prints for any other finite number (a
  fraction, or an exponent form) is not modelled: it is the parameter \<open>other\<close>, and every
  result below holds whatever it is.
\<close>

definition number_to_string :: "(rat \<Rightarrow> string) \<Rightarrow> jsnum \<Rightarrow> string" where
  "number_to_string other n =
     (case n of
        NaN \<Rightarrow> ''NaN''
      | PInf \<Rightarrow> ''Infinity''
      | NInf \<Rightarrow> ''-Infinity''
      | Fin q \<Rightarrow>
          (if of_int \<lfloor>q\<rfloor> = q \<and> \<bar>q\<bar> < 10 ^ 21
           then (if q < 0 then CHR ''-'' # string_of_nat (nat \<lfloor>- q\<rfloor>)
                 else string_of_nat (nat \<lfloor>q\<rfloor>))
           else other q))"

definition to_string :: "(rat \<Rightarrow> string) \<Rightarrow> jsval \<Rightarrow> string" where
  "to_string other v =
     (case v of
        Undefined \<Rightarrow> ''undefined''
      | Null \<Rightarrow> ''null''
      | Bool b \<Rightarrow> (if b then ''true'' else ''false'')
      | Num n \<Rightarrow> number_to_string other n
      | Str s \<Rightarrow> s
      | Date t s \<Rightarrow> s)"

text \<open>\<^verbatim>\<open>Number(v)\<close> and \<^verbatim>\<open>+v\<close>.\<close>

definition to_number :: "jsval \<Rightarrow> jsnum" where
  "to_number v =
     (case v of
        Undefined \<Rightarrow> NaN
      | Null \<Rightarrow> Fin 0
      | Bool b \<Rightarrow> (if b then Fin 1 else Fin 0)
      | Num n \<Rightarrow> n
      | Str s \<Rightarrow> string_to_number s
      | Date t s \<Rightarrow> t)"

text \<open>
  \<^verbatim>\<open>a + b\<close>: a date stands for its text; when either side is then a string the two texts
  are concatenated, otherwise the two numbers are added.
\<close>

definition to_primitive :: "jsval \<Rightarrow> jsval" where
  "to_primitive v = (case v of Date t s \<Rightarrow> Str s | _ \<Rightarrow> v)"

definition is_Str :: "jsval \<Rightarrow> bool" where
  "is_Str v = (case v of Str s \<Rightarrow> True | _ \<Rightarrow> False)"

definition js_plus :: "(rat \<Rightarrow> string) \<Rightarrow> jsval \<Rightarrow> jsval \<Rightarrow> jsval" where
  "js_plus other a b =
     (let pa = to_primitive a; pb = to_primitive b in
      if is_Str pa \<or> is_Str pb then Str (to_string other pa @ to_string other pb)
      else Num (num_add (to_number pa) (to_number pb)))"

section \<open>Library functions the module calls\<close>

text \<open>
  A callback that throws ends \<^verbatim>\<open>Array.prototype.map\<close> and \<^verbatim>\<open>filter\<close> at once; the
  error is the result.
\<close>

fun array_map :: "('a \<Rightarrow> error + 'b) \<Rightarrow> 'a list \<Rightarrow> error + 'b list" where
  "array_map f [] = Inr []"
| "array_map f (x # xs) =
     (case f x of
        Inl e \<Rightarrow> Inl e
      | Inr y \<Rightarrow> (case array_map f xs of Inl e \<Rightarrow> Inl e | Inr ys \<Rightarrow> Inr (y # ys)))"

fun array_filter :: "('a \<Rightarrow> error + bool) \<Rightarrow> 'a list \<Rightarrow> error + 'a list" where
  "array_filter p [] = Inr []"
| "array_filter p (x # xs) =
     (case p x of
        Inl e \<Rightarrow> Inl e
      | Inr b \<Rightarrow>
          (case array_filter p xs of
             Inl e \<Rightarrow> Inl e
           | Inr ys \<Rightarrow> Inr (if b then x # ys else ys)))"

text \<open>
  \<^verbatim>\<open>mapLimit(coll, limit, iteratee)\<close> of the \<^verbatim>\<open>async\<close> package, as the value it settles
  with: the results in the order of the collection, or an error as soon as one operation
  fails. The model runs the operations one after the other, so it says nothing about how
  many are in flight, and of several failing operations it reports the first of the
  collection where the library reports the first in time.
\<close>

definition mapLimit :: "'a list \<Rightarrow> nat \<Rightarrow> ('a \<Rightarrow> error + 'b) \<Rightarrow> error + 'b list" where
  "mapLimit coll limit iteratee = array_map iteratee coll"

text \<open>\<^verbatim>\<open>new Map(entries)\<close>: a later entry of a key replaces the value and keeps the place.\<close>

definition new_Map :: "('k \<times> 'v) list \<Rightarrow> ('k \<times> 'v) list" where
  "new_Map entries = foldl (\<lambda>m (k, v). AList.update k v m) [] entries"

text \<open>
  d3's \<^verbatim>\<open>nest\<close> groups the values by key into an insertion-ordered map: a value joins the
  group of its key, or opens a new group at the end.
\<close>

fun group_push :: "'k \<Rightarrow> 'a \<Rightarrow> ('k \<times> 'a list) list \<Rightarrow> ('k \<times> 'a list) list" where
  "group_push k x [] = [(k, [x])]"
| "group_push k x ((k', g) # rest) =
     (if k' = k then (k', g @ [x]) # rest else (k', g) # group_push k x rest)"

definition nest_groups :: "('a \<Rightarrow> 'k) \<Rightarrow> 'a list \<Rightarrow> ('k \<times> 'a list) list" where
  "nest_groups keyof vs = foldl (\<lambda>groups v. group_push (keyof v) v groups) [] vs"

text \<open>\<^verbatim>\<open>rollups(values, reduce, key)\<close>: the pairs of a key and its reduced group.\<close>

definition rollups ::
  "'a list \<Rightarrow> ('a list \<Rightarrow> error + 'b) \<Rightarrow> ('a \<Rightarrow> 'k) \<Rightarrow> error + ('k \<times> 'b) list" where
  "rollups vs reduce keyof =
     array_map (\<lambda>(k, g). (case reduce g of Inl e \<Rightarrow> Inl e | Inr r \<Rightarrow> Inr (k, r)))
       (nest_groups keyof vs)"

text \<open>\<^verbatim>\<open>index(values, key)\<close>: as \<^verbatim>\<open>rollups\<close>, where a group of two values throws.\<close>

definition unique :: "'a list \<Rightarrow> error + 'a" where
  "unique vs = (case vs of [v] \<Rightarrow> Inr v | _ \<Rightarrow> Inl DuplicateKey)"

definition index :: "'a list \<Rightarrow> ('a \<Rightarrow> 'k) \<Rightarrow> error + ('k \<times> 'a) list" where
  "index vs keyof = rollups vs unique keyof"

text \<open>
  \<^verbatim>\<open>sum(values, valueof)\<close> of d3-array: a value that is NaN or zero is skipped, any other
  is added.
\<close>

definition d3_sum :: "'a list \<Rightarrow> ('a \<Rightarrow> jsnum) \<Rightarrow> jsnum" where
  "d3_sum vs valueof =
     foldl (\<lambda>sum v. let value = valueof v in if truthy value then num_add sum value else sum)
       (Fin 0) vs"

section \<open>The module \<^verbatim>\<open>main.js\<close>\<close>

subsection \<open>What a run reads and writes\<close>

text \<open>
  A \<^verbatim>\<open>fetch\<close> rejects, or resolves with a response that is not \<^verbatim>\<open>ok\<close>, or with one that is
  and whose body is then read. The body is given as the library that parses it returns
  it: the rows of \<^verbatim>\<open>csvParse\<close>, or for a detail page the section rows that the two
  \<^verbatim>\<open>querySelectorAll\<close> calls find. A body whose reading rejects counts as a rejected
  fetch: the module awaits both with no handler.
\<close>

datatype 'a response = Rejected | NotOk | Ok 'a

text \<open>
  An object with string properties, in the order they were set: a section, as
  \<^verbatim>\<open>getCourseSections\<close> builds it. Reading a property that was never set gives \<open>None\<close>, the
  \<^verbatim>\<open>undefined\<close> of the language.
\<close>

type_synonym section_record = "(string \<times> string) list"

text \<open>A row of the prior overview as \<^verbatim>\<open>csvParse(overview, autoType)\<close> returns it.\<close>

type_synonym typed_row = "(string \<times> jsval) list"

definition cell :: "typed_row \<Rightarrow> string \<Rightarrow> jsval" where
  "cell d k = (case map_of d k of None \<Rightarrow> Undefined | Some v \<Rightarrow> v)"

text \<open>
  A section row of a detail page: what \<^verbatim>\<open>dateToNearestHour()\<close> returns when the row is
  mapped, and the \<^verbatim>\<open>textContent\<close> of each of its \<^verbatim>\<open>.col-md-1\<close> columns.
\<close>

record page_row =
  hour :: string
  columns :: "string list"

record summary =
  department :: string
  number :: jsnum
  title :: "string option"
  capacity :: jsnum
  available :: jsnum
  percent_available :: jsnum
  waitlist :: jsnum
  undergrad :: bool
  studyAbroad :: bool

record stub_row =
  Course :: "string option"
  Time :: "string option"
  Section :: "string option"
  Mode :: "string option"
  Number :: "string option"
  Status :: "string option"
  Open_Seats :: "string option"
  Wait_List :: jsnum

text \<open>The body of a published object: the rows handed to \<^verbatim>\<open>csvFormat\<close>.\<close>

datatype body = OverviewTable "summary list" | StubTable "stub_row list"

record put_object =
  Bucket :: string
  Key :: string
  Body :: body
  ContentType :: string
  CacheControl :: "string option"

text \<open>
  Everything a run takes from outside the module: the three kinds of fetch (the catalog
  rows are those of \<^verbatim>\<open>csvParse\<close>, each a course, a suffix and a title; the detail pages are
  found by their two query parameters), the hour read for the name of the stub, whether
  the store accepts a command, and the text of the numbers that \<open>number_to_string\<close>
  leaves open.
\<close>

record world =
  cache_courses :: "(string \<times> string \<times> string) list response"
  cg_detail :: "string \<Rightarrow> string \<Rightarrow> page_row list response"
  prior_overview :: "typed_row list response"
  stub_hour :: string
  send_ok :: "put_object \<Rightarrow> bool"
  other_number_text :: "rat \<Rightarrow> string"

definition bucket :: string where
  "bucket = ''stash.michigandaily.com''"

definition prefix :: string where
  "prefix = ''course-tracker/winter-2023''"

subsection \<open>\<^verbatim>\<open>getSections\<close>\<close>

text \<open>
  The loop over the columns of one row: the trimmed text is split at the colons, the
  first part is the key and the second the value; \<^verbatim>\<open>value.trim()\<close> throws when there is
  no second part.
\<close>

fun set_columns :: "section_record \<Rightarrow> string list \<Rightarrow> error + section_record" where
  "set_columns sec [] = Inr sec"
| "set_columns sec (column # rest) =
     (case split (CHR '':'') (trim column) of
        key # value # others \<Rightarrow> set_columns (AList.update key (trim value) sec) rest
      | _ \<Rightarrow> Inl TypeError)"

definition row_section :: "string \<Rightarrow> string \<Rightarrow> page_row \<Rightarrow> error + section_record" where
  "row_section name ttl row =
     set_columns [(''Course'', name), (''Time'', hour row), (''title'', ttl)] (columns row)"

definition getCourseSections ::
  "world \<Rightarrow> string \<Rightarrow> string \<Rightarrow> string \<times> string \<times> string \<Rightarrow> error + section_record list" where
  "getCourseSections w term pre entry =
     (case entry of (name, suffix, ttl) \<Rightarrow>
        (case cg_detail w (pre @ name @ suffix) term of
           Rejected \<Rightarrow> Inl FetchError
         | NotOk \<Rightarrow> Inr []
         | Ok rows \<Rightarrow> array_map (row_section name ttl) rows))"

definition NUM_OPERATIONS :: nat where
  "NUM_OPERATIONS = 25"

text \<open>\<open>courses\<close> is \<open>None\<close> for \<^verbatim>\<open>null\<close>, on which \<^verbatim>\<open>courses.entries()\<close> throws.\<close>

definition getSections ::
  "world \<Rightarrow> (string \<times> string \<times> string) list option \<Rightarrow> string \<Rightarrow> error + section_record list" where
  "getSections w courses term =
     (let pre = last (split (CHR ''_'') term) in
      case courses of
        None \<Rightarrow> Inl TypeError
      | Some entries \<Rightarrow>
          (case mapLimit entries NUM_OPERATIONS (getCourseSections w term pre) of
             Inl e \<Rightarrow> Inl e
           | Inr sections \<Rightarrow> Inr (concat sections)))"

subsection \<open>\<^verbatim>\<open>getCourses\<close> and \<^verbatim>\<open>getOverview\<close>\<close>

definition getCourses :: "world \<Rightarrow> error + (string \<times> string \<times> string) list option" where
  "getCourses w =
     (case cache_courses w of
        Rejected \<Rightarrow> Inl FetchError
      | NotOk \<Rightarrow> Inr None
      | Ok cache \<Rightarrow> Inr (Some (new_Map cache)))"

definition overview_key :: "(rat \<Rightarrow> string) \<Rightarrow> typed_row \<Rightarrow> jsval" where
  "overview_key other d = js_plus other (cell d ''department'') (cell d ''number'')"

definition getOverview :: "world \<Rightarrow> error + (jsval \<times> typed_row) list option" where
  "getOverview w =
     (case prior_overview w of
        Rejected \<Rightarrow> Inl FetchError
      | NotOk \<Rightarrow> Inr None
      | Ok overview \<Rightarrow>
          (case index overview (overview_key (other_number_text w)) of
             Inl e \<Rightarrow> Inl e
           | Inr m \<Rightarrow> Inr (Some m)))"

subsection \<open>\<^verbatim>\<open>handler\<close>\<close>

text \<open>The predicate of the filter; \<^verbatim>\<open>d.Section.includes\<close> throws on a section with no label.\<close>

definition countable :: "section_record \<Rightarrow> error + bool" where
  "countable d =
     (case map_of d ''Section'' of
        None \<Rightarrow> Inl TypeError
      | Some label \<Rightarrow>
          Inr (str_includes label ''LEC'' \<or> str_includes label ''SEM'' \<or>
               str_includes label ''REC'' \<or> str_includes label ''IND''))"

text \<open>\<^verbatim>\<open>+d[k]\<close> on a section.\<close>

definition plus_field :: "section_record \<Rightarrow> string \<Rightarrow> jsnum" where
  "plus_field d k = (case map_of d k of None \<Rightarrow> NaN | Some s \<Rightarrow> string_to_number s)"

text \<open>\<^verbatim>\<open>d["Wait List"] === "-" ? 0 : +d["Wait List"]\<close>\<close>

definition wait_list :: "section_record \<Rightarrow> jsnum" where
  "wait_list d = (if map_of d ''Wait List'' = Some ''-'' then Fin 0 else plus_field d ''Wait List'')"

text \<open>The capacity of a group: what is available, or a larger value of the prior overview.\<close>

definition capacity_of :: "(jsval \<times> typed_row) list option \<Rightarrow> string \<Rightarrow> jsnum \<Rightarrow> jsnum" where
  "capacity_of overview course avail =
     (case overview of
        None \<Rightarrow> avail
      | Some m \<Rightarrow>
          (case map_of m (Str course) of
             None \<Rightarrow> avail
           | Some d \<Rightarrow>
               (let potential = to_number (cell d ''capacity'') in
                if num_gt potential avail then potential else avail)))"

text \<open>The reducer of \<^verbatim>\<open>rollups\<close>, on the group \<open>v\<close> of one course.\<close>

definition reduce_group :: "(jsval \<times> typed_row) list option \<Rightarrow> section_record list \<Rightarrow> error + summary" where
  "reduce_group overview v =
     (case v of
        [] \<Rightarrow> Inl TypeError
      | v0 # rest \<Rightarrow>
          (case map_of v0 ''Course'' of
             None \<Rightarrow> Inl TypeError
           | Some course \<Rightarrow>
               (let num = string_to_number (slice_last3 course);
                    avail = d3_sum v (\<lambda>d. plus_field d ''Open Seats'');
                    cap = capacity_of overview course avail
                in Inr \<lparr> department = slice_but_last3 course,
                         number = num,
                         title = map_of v0 ''title'',
                         capacity = cap,
                         available = avail,
                         percent_available = num_div avail cap,
                         waitlist = d3_sum v wait_list,
                         undergrad = num_lt num (Fin 500),
                         studyAbroad = str_includes course ''STDABRD'' \<rparr>)))"

text \<open>The rollup with its keys, before \<^verbatim>\<open>.map((d) => d[1])\<close> drops them.\<close>

definition primary_groups ::
  "(jsval \<times> typed_row) list option \<Rightarrow> section_record list \<Rightarrow> error + (string option \<times> summary) list" where
  "primary_groups overview sections =
     (case array_filter countable sections of
        Inl e \<Rightarrow> Inl e
      | Inr kept \<Rightarrow> rollups kept (reduce_group overview) (\<lambda>d. map_of d ''Course''))"

definition stub_of :: "section_record \<Rightarrow> stub_row" where
  "stub_of d =
     \<lparr> Course = map_of d ''Course'',
       Time = map_of d ''Time'',
       Section = map_of d ''Section'',
       Mode = map_of d ''Instruction Mode'',
       Number = map_of d ''Class No'',
       Status = map_of d ''Enroll Stat'',
       Open_Seats = map_of d ''Open Seats'',
       Wait_List = wait_list d \<rparr>"

definition put_overview :: "summary list \<Rightarrow> put_object" where
  "put_overview primary =
     \<lparr> Bucket = bucket,
       Key = prefix @ ''/overview.csv'',
       Body = OverviewTable primary,
       ContentType = ''text/csv'',
       CacheControl = Some ''s-maxage=3500'' \<rparr>"

definition put_stub :: "string \<Rightarrow> stub_row list \<Rightarrow> put_object" where
  "put_stub stamp stub =
     \<lparr> Bucket = bucket,
       Key = prefix @ ''/stubs/stub-'' @ stamp @ ''.csv'',
       Body = StubTable stub,
       ContentType = ''text/csv'',
       CacheControl = None \<rparr>"

text \<open>
  A run: the commands the store accepted, in order, and the error that ended the run,
  if one did.
\<close>

definition handler :: "world \<Rightarrow> put_object list \<times> error option" where
  "handler w =
     (let term = ''w_23_2420'' in
      case getCourses w of
        Inl e \<Rightarrow> ([], Some e)
      | Inr courses \<Rightarrow>
      (case getSections w courses term of
        Inl e \<Rightarrow> ([], Some e)
      | Inr sections \<Rightarrow>
      (case getOverview w of
        Inl e \<Rightarrow> ([], Some e)
      | Inr overview \<Rightarrow>
      (case primary_groups overview sections of
        Inl e \<Rightarrow> ([], Some e)
      | Inr groups \<Rightarrow>
          (let primary = map snd groups;
               first = put_overview primary
           in if \<not> send_ok w first then ([], Some SendError)
              else
                (let stub = map stub_of sections;
                     second = put_stub (stub_hour w) stub
                 in if \<not> send_ok w second then ([first], Some SendError)
                    else ([first, second], None)))))))"

section \<open>The vocabulary of the results\<close>

text \<open>
  The definitions of this section are not parts of the module: they name what the
  results below speak about.
\<close>














section \<open>Sample runs\<close>

text \<open>
  A catalog of four courses. The page of EECS 485 has a lecture, a discussion and an
  independent study; MATH 085 has a lecture; CHEM 130 has a discussion only; the page of
  PHYS 140 is answered with a status that is not a success. The prior overview has a row
  for EECS 485 and one for MATH 085, as a run writes them.
\<close>

definition sample_catalog :: "(string \<times> string \<times> string) list" where
  "sample_catalog =
     [(''EECS485'', ''001'', ''Web Systems''),
      (''PHYS140'', ''100'', ''General Physics I''),
      (''MATH085'', ''001'', ''Problem Solving''),
      (''CHEM130'', ''100'', ''General Chemistry'')]"

definition sample_pages :: "string \<Rightarrow> string \<Rightarrow> page_row list response" where
  "sample_pages content term =
     (if term \<noteq> ''w_23_2420'' then NotOk
      else if content = ''2420EECS485001'' then
        Ok [\<lparr> hour = ''2022-11-03T07:00:00.000Z'',
               columns = [''Section: 001 (LEC)'', ''Instruction Mode:   In Person'',
                          ''Class No: 24680'', ''Enroll Stat: Open'', ''Open Seats: 5'',
                          ''Wait List: -''] \<rparr>,
            \<lparr> hour = ''2022-11-03T07:00:00.000Z'',
               columns = [''Section: 011 (DIS)'', ''Open Seats: 10'', ''Wait List: 3''] \<rparr>,
            \<lparr> hour = ''2022-11-03T07:00:00.000Z'',
               columns = ['' Section: 401 (IND) '', ''Open Seats: 2'', ''Wait List: 4''] \<rparr>]
      else if content = ''2420MATH085001'' then
        Ok [\<lparr> hour = ''2022-11-03T07:00:00.000Z'',
               columns = [''Section: 001 (LEC)'', ''Open Seats: 5'', ''Wait List: -''] \<rparr>]
      else if content = ''2420CHEM130100'' then
        Ok [\<lparr> hour = ''2022-11-03T07:00:00.000Z'',
               columns = [''Section: 101 (DIS)'', ''Open Seats: 8'', ''Wait List: 1''] \<rparr>]
      else NotOk)"

definition eecs_prior_row :: typed_row where
  "eecs_prior_row =
     [(''department'', Str ''EECS''), (''number'', Num (Fin 485)),
      (''title'', Str ''Web Systems''), (''capacity'', Num (Fin 100))]"

definition math_prior_row :: typed_row where
  "math_prior_row =
     [(''department'', Str ''MATH''), (''number'', Num (Fin 85)),
      (''title'', Str ''Problem Solving''), (''capacity'', Num (Fin 40))]"

definition sample_prior :: "typed_row list" where
  "sample_prior = [eecs_prior_row, math_prior_row]"

definition sample_world :: world where
  "sample_world =
     \<lparr> cache_courses = Ok sample_catalog,
       cg_detail = sample_pages,
       prior_overview = Ok sample_prior,
       stub_hour = ''2022-11-03T07:00:00.000Z'',
       send_ok = (\<lambda>c. True),
       other_number_text = (\<lambda>q. []) \<rparr>"







text \<open>The same run when the catalog is answered with a failure status.\<close>

definition world_without_catalog :: world where
  "world_without_catalog = sample_world \<lparr> cache_courses := NotOk \<rparr>"















section \<open>Auxiliary facts\<close>

subsection \<open>Arrays, groups and rollups\<close>


















subsection \<open>Strings of digits\<close>












subsection \<open>Published rows\<close>


lemma put_bodies [simp]:
  "Body (put_overview primary) = OverviewTable primary"
  "Body (put_stub stamp stub) = StubTable stub"
  by (simp_all add: put_overview_def put_stub_def)






subsection \<open>Substrings and slices\<close>







subsection \<open>The index of the prior overview\<close>










subsection \<open>Countable sections and wait lists\<close>





lemma stub_wait_list [simp]: "Wait_List (stub_of d) = wait_list d"
  by (simp add: stub_of_def)




subsection \<open>Columns and keys\<close>


















subsection \<open>Runs that complete\<close>






subsection \<open>A course struck from the catalog\<close>










subsection \<open>The course of a section\<close>






lemma stub_course [simp]: "Course (stub_of d) = map_of d ''Course''"
  by (simp add: stub_of_def)

subsection \<open>Rows and runs\<close>



subsection \<open>The sample runs, evaluated\<close>





section \<open>Results\<close>

subsection \<open>Capacity\<close>



subsection \<open>Countable sections\<close>



subsection \<open>The key of the prior overview\<close>




subsection \<open>The share of open seats\<close>




subsection \<open>Wait lists\<close>




subsection \<open>Rows with missing labels\<close>




subsection \<open>A detail page that fails\<close>



subsection \<open>An unavailable catalog\<close>

text \<open>
  Claim C8. When the fetch of the course catalog resolves with a status that is not a
  success, \<^verbatim>\<open>getCourses\<close> returns \<^verbatim>\<open>null\<close>, \<^verbatim>\<open>courses.entries()\<close> throws in
  \<^verbatim>\<open>getSections\<close>, and the run ends there: no command reaches the store, neither the
  overview nor a stub.
\<close>

theorem unavailable_catalog_publishes_nothing:
  "cache_courses w = NotOk \<Longrightarrow> handler w = ([], Some TypeError)"
  by (simp add: handler_def getCourses_def getSections_def)

theorem unavailable_catalog_publishes_nothing_witness:
  "cache_courses world_without_catalog = NotOk \<and>
   handler world_without_catalog = ([], Some TypeError)"
  using unavailable_catalog_publishes_nothing [of world_without_catalog]
  by (simp add: world_without_catalog_def)

subsection \<open>Department, number and flags\<close>



end
